theory Spec2Isabelle
  imports Complex_Main "HOL-Library.AList" "HOL-Library.Sublist"
begin

section \<open>Conventions\<close>

text \<open>
  The program is one Flask module, \<^verbatim>\<open>app.py\<close>. Its shared state is the module-level
  dictionary \<^verbatim>\<open>JOBS\<close>, written only under \<^verbatim>\<open>JOB_LOCK\<close>. Conventions of the embedding:
  \<^item> a Python \<^verbatim>\<open>str\<close> is a \<^typ>\<open>string\<close>; the characters are the code points below 256;
  \<^item> an argument or dictionary entry that may be \<^verbatim>\<open>None\<close> is an \<^typ>\<open>'a option\<close>;
  \<^item> byte counts and percentages are Python integers, hence \<^typ>\<open>int\<close>;
  \<^item> clock readings and throughputs are Python floats; they are modelled by exact
    \<^typ>\<open>real\<close> numbers, so the rounding of floating-point arithmetic is not represented;
  \<^item> \<^verbatim>\<open>JOBS\<close> is an association list in insertion order, as a Python dictionary is;
  \<^item> every call that reads the clock receives the reading as an argument;
  \<^item> an exception is a value (\<open>exn\<close>), a function that may raise returns a sum or an
    \<open>outcome\<close>;
  \<^item> where a name of the source is the name of a record field here, the variable is
    shortened: \<open>st\<close>, \<open>pc\<close>, \<open>dl\<close>, \<open>tot\<close>, \<open>sp\<close>, \<open>fn\<close>, \<open>er\<close> for the arguments of
    \<^verbatim>\<open>update_job_progress\<close>, \<open>mt\<close> for \<^verbatim>\<open>media_type\<close>, \<open>plat\<close> for \<^verbatim>\<open>platform\<close>, \<open>nfo\<close> for
    \<^verbatim>\<open>info\<close>, \<open>pct\<close> for a local \<^verbatim>\<open>percent\<close>.
\<close>

section \<open>Strings\<close>

text \<open>
  \<^verbatim>\<open>str.lower\<close>, \<^verbatim>\<open>str.isspace\<close> (also the class \<^verbatim>\<open>\s\<close> of \<^verbatim>\<open>re\<close>) and \<^verbatim>\<open>str.strip\<close>
  on code points below 256. \<^verbatim>\<open>a in b\<close> on strings is \<^const>\<open>sublist\<close>, \<^verbatim>\<open>b.startswith(a)\<close> is
  \<^const>\<open>prefix\<close>.
\<close>

definition py_lower_char :: "char \<Rightarrow> char" where
  "py_lower_char c =
     (let n = (of_char c :: nat)
      in if (65 \<le> n \<and> n \<le> 90) \<or> (192 \<le> n \<and> n \<le> 222 \<and> n \<noteq> 215)
         then char_of (n + 32) else c)"

definition py_lower :: "string \<Rightarrow> string" where
  "py_lower s = map py_lower_char s"

definition py_isspace :: "char \<Rightarrow> bool" where
  "py_isspace c =
     (let n = (of_char c :: nat)
      in (9 \<le> n \<and> n \<le> 13) \<or> (28 \<le> n \<and> n \<le> 32) \<or> n = 133 \<or> n = 160)"

definition py_strip :: "string \<Rightarrow> string" where
  "py_strip s = rev (dropWhile py_isspace (rev (dropWhile py_isspace s)))"

text \<open>\<^verbatim>\<open>s.replace(old, new)\<close> for a non-empty \<open>old\<close>: leftmost matches, not overlapping.\<close>

function py_replace :: "string \<Rightarrow> string \<Rightarrow> string \<Rightarrow> string" where
  "py_replace old new [] = []"
| "py_replace old new (c # cs) =
     (if old \<noteq> [] \<and> prefix old (c # cs)
      then new @ py_replace old new (drop (length old) (c # cs))
      else c # py_replace old new cs)"
  by pat_completeness auto
termination
  by (relation "measure (\<lambda>(old, new, s). length s)") auto

text \<open>\<^verbatim>\<open>str(n)\<close> for an integer: decimal digits, with a minus sign below zero.\<close>

definition digit_char :: "nat \<Rightarrow> char" where
  "digit_char n = char_of (48 + n)"

function str_nat :: "nat \<Rightarrow> string" where
  "str_nat n = (if n < 10 then [digit_char n] else str_nat (n div 10) @ [digit_char (n mod 10)])"
  by pat_completeness auto
termination
  by (relation "measure id") auto

definition str_int :: "int \<Rightarrow> string" where
  "str_int i = (if i < 0 then CHR ''-'' # str_nat (nat (- i)) else str_nat (nat i))"

text \<open>
  \<^verbatim>\<open>f"{x:.1f}"\<close>: the number rounded to one decimal place, ties to the even digit (the
  rounding is applied to the exact real number here, to the binary float in Python).
\<close>

definition round_half_even :: "real \<Rightarrow> int" where
  "round_half_even x =
     (let f = \<lfloor>x\<rfloor>; r = x - of_int f
      in if r < 1 / 2 then f else if r > 1 / 2 then f + 1 else if even f then f else f + 1)"

definition fmt_1f :: "real \<Rightarrow> string" where
  "fmt_1f x =
     (let n = nat (round_half_even (\<bar>x\<bar> * 10))
      in (if x < 0 then [CHR ''-''] else []) @ str_nat (n div 10) @ [CHR ''.''] @
         str_nat (n mod 10))"

text \<open>
  The two throughput texts: \<^verbatim>\<open>f"{v/(1024*1024):.1f} MB/s"\<close> above 1 MiB/s, otherwise
  \<^verbatim>\<open>f"{v/1024:.1f} KB/s"\<close>.
\<close>

definition speed_text :: "real \<Rightarrow> string" where
  "speed_text v =
     (if v > 1024 * 1024 then fmt_1f (v / (1024 * 1024)) @ '' MB/s''
      else fmt_1f (v / 1024) @ '' KB/s'')"

section \<open>The job record and the store\<close>

record job =
  status :: string
  percent :: int
  downloaded_bytes :: int
  total_bytes :: int
  speed :: string
  filename :: "string option"
  error :: "string option"
  platform :: string
  media_type :: string
  start_time :: real
  last_update :: string

type_synonym jobs = "(string \<times> job) list"

record reading =
  time_time :: real
  now_isoformat :: string

text \<open>The dictionary literal stored by \<^verbatim>\<open>download\<close> when it creates a job.\<close>

definition new_job :: "string \<Rightarrow> string \<Rightarrow> reading \<Rightarrow> job" where
  "new_job plat mt rd =
     \<lparr>status = ''queued'', percent = 0, downloaded_bytes = 0, total_bytes = 0,
      speed = ''0 KB/s'', filename = None, error = None,
      platform = plat, media_type = mt,
      start_time = time_time rd, last_update = now_isoformat rd\<rparr>"

section \<open>ProgressStore: \<^verbatim>\<open>update_job_progress\<close>\<close>

text \<open>
  Arguments after the job id, in the order of the Python signature: \<^verbatim>\<open>status\<close>,
  \<^verbatim>\<open>percent\<close>, \<^verbatim>\<open>downloaded_bytes\<close>, \<^verbatim>\<open>total_bytes\<close>, \<^verbatim>\<open>speed\<close>, \<^verbatim>\<open>filename\<close>,
  \<^verbatim>\<open>error\<close>. \<^verbatim>\<open>if status:\<close> is the test for a non-empty string. Every record is
  created with the key \<^verbatim>\<open>start_time\<close>, so the test \<^verbatim>\<open>"start_time" in JOBS[job_id]\<close> holds.
\<close>

definition update_job_progress ::
  "reading \<Rightarrow> jobs \<Rightarrow> string \<Rightarrow> string \<Rightarrow> int option \<Rightarrow> int option \<Rightarrow> int option \<Rightarrow>
   string option \<Rightarrow> string option \<Rightarrow> string option \<Rightarrow> jobs" where
  "update_job_progress rd J job_id st pc dl tot sp fn er =
     (case map_of J job_id of
        None \<Rightarrow> J
      | Some j0 \<Rightarrow>
          let j1 = (case pc of None \<Rightarrow> j0 | Some p \<Rightarrow> j0\<lparr>percent := p\<rparr>);
              j2 = (if st \<noteq> [] then j1\<lparr>status := st\<rparr> else j1);
              j3 = (case dl of None \<Rightarrow> j2 | Some b \<Rightarrow> j2\<lparr>downloaded_bytes := b\<rparr>);
              j4 = (case tot of None \<Rightarrow> j3 | Some t \<Rightarrow> j3\<lparr>total_bytes := t\<rparr>);
              j5 = (case sp of None \<Rightarrow> j4 | Some s \<Rightarrow> j4\<lparr>speed := s\<rparr>);
              j6 = (case fn of None \<Rightarrow> j5 | Some f \<Rightarrow> j5\<lparr>filename := Some f\<rparr>);
              j7 = (case er of None \<Rightarrow> j6 | Some e \<Rightarrow> j6\<lparr>error := Some e\<rparr>);
              j8 = j7\<lparr>last_update := now_isoformat rd\<rparr>;
              j9 = (case dl of
                      None \<Rightarrow> j8
                    | Some b \<Rightarrow>
                        let elapsed_time = time_time rd - start_time j8 in
                        if elapsed_time > 0 then
                          let current_speed = real_of_int b / elapsed_time
                          in j8\<lparr>speed := speed_text current_speed\<rparr>
                        else j8)
          in AList.update job_id j9 J)"

section \<open>ProgressHookAdapter: \<^verbatim>\<open>create_ydl_progress_hook\<close>\<close>

text \<open>
  The dictionary \<^verbatim>\<open>d\<close> the engine passes to the hook. \<^verbatim>\<open>d.get(k)\<close> is \<open>None\<close> both for a
  missing key and for a stored \<^verbatim>\<open>None\<close>; only \<^verbatim>\<open>d.get("error", "Unknown error")\<close> tells
  the two apart, so \<open>d_error\<close> is \<open>None\<close> for a missing key and \<open>Some v\<close> for a stored
  value \<open>v\<close>, itself \<open>None\<close> or a text.
\<close>

record hook_dict =
  d_status :: "string option"
  d_total_bytes :: "int option"
  d_total_bytes_estimate :: "int option"
  d_downloaded_bytes :: "int option"
  d_speed :: "real option"
  d_error :: "string option option"

text \<open>\<^verbatim>\<open>int(a / b)\<close> for integers \<open>a\<close> and \<open>b \<noteq> 0\<close>: the quotient truncated towards zero.\<close>

definition py_int_quot :: "int \<Rightarrow> int \<Rightarrow> int" where
  "py_int_quot a b = sgn a * sgn b * (\<bar>a\<bar> div \<bar>b\<bar>)"

text \<open>
  \<^verbatim>\<open>x or y\<close>, the truth value of an optional integer (\<^verbatim>\<open>None\<close> and \<open>0\<close> are false),
  and the integer it holds where it is true.
\<close>

definition py_or :: "int option \<Rightarrow> int option \<Rightarrow> int option" where
  "py_or x y = (case x of None \<Rightarrow> y | Some v \<Rightarrow> if v \<noteq> 0 then Some v else y)"

definition truthy :: "int option \<Rightarrow> bool" where
  "truthy x = (case x of None \<Rightarrow> False | Some v \<Rightarrow> v \<noteq> 0)"

definition value_of :: "int option \<Rightarrow> int" where
  "value_of x = (case x of None \<Rightarrow> 0 | Some v \<Rightarrow> v)"

definition speed_str_of :: "real option \<Rightarrow> string option" where
  "speed_str_of spd =
     (case spd of
        None \<Rightarrow> None
      | Some s \<Rightarrow> if s \<noteq> 0 then Some (speed_text s) else None)"

definition create_ydl_progress_hook :: "string \<Rightarrow> reading \<Rightarrow> jobs \<Rightarrow> hook_dict \<Rightarrow> jobs" where
  "create_ydl_progress_hook job_id rd J d =
     (case map_of J job_id of
        None \<Rightarrow> J
      | Some cur \<Rightarrow>
          if d_status d = Some ''downloading'' then
            (let total = py_or (d_total_bytes d) (d_total_bytes_estimate d);
                 downloaded = d_downloaded_bytes d;
                 speed_str = speed_str_of (d_speed d)
             in if truthy total \<and> truthy downloaded then
                  (let pct = py_int_quot (value_of downloaded * 100) (value_of total);
                       adjusted_pct = max 20 (min 90 pct)
                   in update_job_progress rd J job_id ''downloading'' (Some adjusted_pct)
                        downloaded total speed_str None None)
                else if truthy downloaded then
                  update_job_progress rd J job_id ''downloading'' None downloaded None
                    speed_str None None
                else
                  (let current_pct = percent cur;
                       new_pct = min 85 (current_pct + 1)
                   in update_job_progress rd J job_id ''downloading'' (Some new_pct) None None
                        speed_str None None))
          else if d_status d = Some ''finished'' then
            update_job_progress rd J job_id ''processing'' (Some 92) None None None None None
          else if d_status d = Some ''postprocessing'' then
            update_job_progress rd J job_id ''processing'' (Some 95) None None None None None
          else if d_status d = Some ''error'' then
            (let error_msg = (case d_error d of None \<Rightarrow> Some ''Unknown error'' | Some v \<Rightarrow> v)
             in update_job_progress rd J job_id ''error'' None None None None None error_msg)
          else J)"

text \<open>The engine calls the hook of one job any number of times, each call at its own time.\<close>

fun run_hook :: "string \<Rightarrow> jobs \<Rightarrow> (reading \<times> hook_dict) list \<Rightarrow> jobs" where
  "run_hook job_id J [] = J"
| "run_hook job_id J ((rd, d) # es) = run_hook job_id (create_ydl_progress_hook job_id rd J d) es"

section \<open>Reaper: one pass of \<^verbatim>\<open>cleanup_old_jobs\<close>\<close>

text \<open>
  \<^verbatim>\<open>cleanup_old_jobs\<close> is \<^verbatim>\<open>while True: time.sleep(300); <pass>\<close> and never returns.
  The definition is one pass under the lock, at the clock reading \<open>current_time\<close>: the
  first loop collects \<^verbatim>\<open>to_delete\<close> in dictionary order, the second deletes the keys.
\<close>

definition cleanup_old_jobs :: "real \<Rightarrow> jobs \<Rightarrow> jobs" where
  "cleanup_old_jobs current_time J =
     (let to_delete =
            map fst
              (filter (\<lambda>(job_id, job).
                         (status job = ''done'' \<or> status job = ''error'') \<and>
                         current_time - start_time job > 3600) J)
      in foldl (\<lambda>acc job_id. AList.delete job_id acc) J to_delete)"

section \<open>The operating system, as the module sees it\<close>

text \<open>
  The file system is a snapshot taken when the controller looks for the artifact, after
  the collaborator has written it. \<open>DOWNLOAD_DIR\<close> is the module constant computed from
  the location of \<^verbatim>\<open>app.py\<close>. \<open>getctime\<close> is \<open>Inl msg\<close> where \<^verbatim>\<open>os.path.getctime\<close> raises
  an error with the text \<open>msg\<close>; \<open>rename_raises\<close> tells where \<^verbatim>\<open>os.rename\<close> raises and
  \<open>open_wb_raises\<close> where \<^verbatim>\<open>open(path, 'wb')\<close> does. \<open>sep\<close> and \<open>altsep\<close> are those of
  \<^verbatim>\<open>os.path\<close> (\<^verbatim>\<open>/\<close> and none on POSIX).
\<close>

record os =
  DOWNLOAD_DIR :: string
  path_exists :: "string \<Rightarrow> bool"
  getsize :: "string \<Rightarrow> int"
  getctime :: "string \<Rightarrow> string + real"
  glob_star :: "string \<Rightarrow> string list"
  path_join :: "string \<Rightarrow> string \<Rightarrow> string"
  basename :: "string \<Rightarrow> string"
  sep :: char
  altsep :: "char option"
  rename_raises :: "string \<Rightarrow> string \<Rightarrow> bool"
  open_wb_raises :: "string \<Rightarrow> string option"

text \<open>\<^verbatim>\<open>s.rfind(c)\<close>: the last index of \<open>c\<close>, or \<open>-1\<close>.\<close>

definition rfind :: "char \<Rightarrow> string \<Rightarrow> int" where
  "rfind c s =
     (if c \<in> set s
      then int (length s) - 1 - int (length (takeWhile (\<lambda>x. x \<noteq> c) (rev s)))
      else - 1)"

text \<open>
  \<^verbatim>\<open>os.path.splitext\<close> (\<^verbatim>\<open>genericpath._splitext\<close>): the extension starts at the last dot
  of the last path component, unless that component has only dots before it.
\<close>

definition splitext :: "os \<Rightarrow> string \<Rightarrow> string \<times> string" where
  "splitext os p =
     (let sepIndex = (case altsep os of
                        None \<Rightarrow> rfind (sep os) p
                      | Some a \<Rightarrow> max (rfind (sep os) p) (rfind a p));
          dotIndex = rfind CHR ''.'' p;
          filenameIndex = sepIndex + 1
      in if dotIndex > sepIndex \<and>
            list_ex (\<lambda>c. c \<noteq> CHR ''.'')
              (take (nat (dotIndex - filenameIndex)) (drop (nat filenameIndex) p))
         then (take (nat dotIndex) p, drop (nat dotIndex) p)
         else (p, []))"

text \<open>\<^verbatim>\<open>max(xs, key=k)\<close> on a non-empty list \<open>x # xs\<close>: the first element with the largest key.\<close>

fun max_by :: "('a \<Rightarrow> real) \<Rightarrow> 'a \<Rightarrow> 'a list \<Rightarrow> 'a" where
  "max_by k best [] = best"
| "max_by k best (x # xs) = max_by k (if k x > k best then x else best) xs"

definition ctime_of :: "os \<Rightarrow> string \<Rightarrow> real" where
  "ctime_of os f = (case getctime os f of Inl msg \<Rightarrow> 0 | Inr t \<Rightarrow> t)"

section \<open>ArtifactResolver: \<^verbatim>\<open>find_downloaded_file\<close>\<close>

definition media_extensions :: "string \<Rightarrow> string list" where
  "media_extensions media_type_lower =
     (if media_type_lower \<in> set [''audio'', ''audio only'', ''audio-only'']
      then [''.mp3'', ''.m4a'', ''.opus'', ''.ogg'', ''.wav'', ''.aac'']
      else if media_type_lower = ''photo''
      then [''.jpg'', ''.jpeg'', ''.png'', ''.webp'', ''.gif'']
      else [''.mp4'', ''.mkv'', ''.webm'', ''.mov'', ''.avi'', ''.flv''])"

text \<open>
  \<open>now\<close> is the reading of \<^verbatim>\<open>time.time()\<close> in the recency filter. The last resort runs
  inside \<^verbatim>\<open>try ... except Exception\<close>: where \<^verbatim>\<open>getctime\<close> raises on a listed file the
  handler prints and the function returns \<^verbatim>\<open>None\<close>.
\<close>

definition find_downloaded_file :: "os \<Rightarrow> real \<Rightarrow> string \<Rightarrow> string \<Rightarrow> string \<Rightarrow> string option" where
  "find_downloaded_file os now prepared_path mt download_dir =
     (let media_type_lower = py_lower mt
      in if prepared_path \<noteq> [] \<and> path_exists os prepared_path then Some prepared_path
         else
           (let base = (if prepared_path \<noteq> [] then fst (splitext os prepared_path) else []);
                extensions = media_extensions media_type_lower
            in case (if base \<noteq> []
                     then List.find (\<lambda>ext. path_exists os (base @ ext)) extensions
                     else None) of
                 Some ext \<Rightarrow> Some (base @ ext)
               | None \<Rightarrow>
                   (let all_files = glob_star os download_dir;
                        filtered_files =
                          filter (\<lambda>f. py_lower (snd (splitext os f)) \<in> set extensions) all_files
                    in if filtered_files \<noteq> [] then
                         (if list_ex (\<lambda>f. isl (getctime os f)) filtered_files then None
                          else
                            (let recent_files =
                                   filter (\<lambda>f. now - ctime_of os f < 120) filtered_files
                             in case recent_files of
                                  [] \<Rightarrow> None
                                | f # fs \<Rightarrow> Some (max_by (ctime_of os) f fs)))
                       else None)))"

section \<open>URL and file-name helpers\<close>

text \<open>
  \<^verbatim>\<open>re.sub(r"^x+https?://", "https://", url)\<close>: the pattern is anchored, and the greedy
  \<^verbatim>\<open>x+\<close> cannot give a letter back to \<^verbatim>\<open>http\<close>, so it matches exactly when the text is a
  non-empty run of \<^verbatim>\<open>x\<close> followed by \<^verbatim>\<open>http://\<close> or \<^verbatim>\<open>https://\<close>. \<^verbatim>\<open>(url or "")\<close> turns
  \<^verbatim>\<open>None\<close> into the empty text.
\<close>

definition sanitize_url :: "string option \<Rightarrow> string" where
  "sanitize_url url =
     (let u = py_strip (case url of None \<Rightarrow> [] | Some s \<Rightarrow> s);
          xs = takeWhile (\<lambda>c. c = CHR ''x'') u;
          rest = dropWhile (\<lambda>c. c = CHR ''x'') u
      in if xs \<noteq> [] \<and> prefix ''https://'' rest then ''https://'' @ drop 8 rest
         else if xs \<noteq> [] \<and> prefix ''http://'' rest then ''https://'' @ drop 7 rest
         else u)"

text \<open>The class \<^verbatim>\<open>[<>:"/\\|?*\x00-\x1F]\<close>.\<close>

definition invalid_filename_char :: "char \<Rightarrow> bool" where
  "invalid_filename_char c =
     (c \<in> set [CHR ''<'', CHR ''>'', CHR '':'', CHR 0x22, CHR ''/'', CHR 0x5C, CHR ''|'',
                CHR ''?'', CHR ''*''] \<or> (of_char c :: nat) \<le> 31)"

text \<open>\<^verbatim>\<open>re.sub(r"\s+", " ", name)\<close>: every maximal run of whitespace becomes one space.\<close>

function collapse_ws :: "string \<Rightarrow> string" where
  "collapse_ws [] = []"
| "collapse_ws (c # cs) =
     (if py_isspace c then CHR '' '' # collapse_ws (dropWhile py_isspace cs)
      else c # collapse_ws cs)"
  by pat_completeness auto
termination
  by (relation "measure length") (auto simp: length_dropWhile_le less_Suc_eq_le)

definition safe_filename :: "string \<Rightarrow> string" where
  "safe_filename name =
     take 180
       (py_strip (collapse_ws (map (\<lambda>c. if invalid_filename_char c then CHR ''_'' else c) name)))"

definition detect_platform :: "string \<Rightarrow> string" where
  "detect_platform url =
     (let url_lower = py_lower url
      in if sublist ''instagram.com'' url_lower then ''instagram''
         else if sublist ''facebook.com'' url_lower \<or> sublist ''fb.watch'' url_lower \<or>
                 sublist ''fb.com'' url_lower then ''facebook''
         else if sublist ''youtube.com'' url_lower \<or> sublist ''youtu.be'' url_lower
         then ''youtube''
         else if sublist ''twitter.com'' url_lower \<or> sublist ''x.com'' url_lower \<or>
                 sublist ''t.co'' url_lower then ''twitter''
         else if sublist ''linkedin.com'' url_lower then ''linkedin''
         else if sublist ''snapchat.com'' url_lower \<or> sublist ''snap.com'' url_lower
         then ''snapchat''
         else ''unknown'')"

section \<open>Engine options: \<^verbatim>\<open>get_cookies_for_platform\<close> and \<^verbatim>\<open>make_ydl_opts\<close>\<close>

text \<open>
  Option values are Python objects; \<open>PHook job_id\<close> is the closure returned by
  \<^verbatim>\<open>create_ydl_progress_hook(job_id)\<close>. A dictionary is an association list and
  \<^verbatim>\<open>a.update(b)\<close> stores the entries of \<open>b\<close> in order.
\<close>

datatype pyval =
  PNone | PBool bool | PStr string | PList "pyval list" | PDict "(string \<times> pyval) list" |
  PHook string

type_synonym pydict = "(string \<times> pyval) list"

definition dict_update :: "pydict \<Rightarrow> pydict \<Rightarrow> pydict" where
  "dict_update a b = foldl (\<lambda>acc (k, v). AList.update k v acc) a b"

definition FFMPEG_LOCATION :: string where
  "FFMPEG_LOCATION = ''C:'' @ [CHR 0x5C] @ ''ffmpeg'' @ [CHR 0x5C] @ ''bin''"

definition get_cookies_for_platform :: "string \<Rightarrow> pydict" where
  "get_cookies_for_platform plat =
     (let configs =
        [(''facebook'',
            [(''cookiefile'', PNone),
             (''extractor_args'',
                PDict [(''facebook'', PDict [(''skip_dash_manifest'', PBool True)])])]),
         (''twitter'',
            [(''extractor_args'',
                PDict [(''twitter'', PDict [(''api'', PList [PStr ''graphql''])])])]),
         (''instagram'',
            [(''extractor_args'',
                PDict [(''instagram'', PDict [(''skip_dash_manifest'', PBool True)])])])]
      in case map_of configs plat of None \<Rightarrow> [] | Some c \<Rightarrow> c)"

definition make_ydl_opts :: "os \<Rightarrow> string \<Rightarrow> string \<Rightarrow> string \<Rightarrow> pydict" where
  "make_ydl_opts os job_id mt plat =
     (let outtmpl = path_join os (DOWNLOAD_DIR os) ''%(title).150s_%(id)s.%(ext)s'';
          opts0 =
            [(''outtmpl'', PStr outtmpl),
             (''noplaylist'', PBool True),
             (''quiet'', PBool False),
             (''no_warnings'', PBool False),
             (''progress_hooks'', PList [PHook job_id]),
             (''ffmpeg_location'', PStr FFMPEG_LOCATION),
             (''nocheckcertificate'', PBool True),
             (''user_agent'', PStr (''Mozilla/5.0 (Windows NT 10.0; Win64; x64) '' @
                ''AppleWebKit/537.36 (KHTML, like Gecko) Chrome/120.0.0.0 Safari/537.36'')),
             (''verbose'', PBool True),
             (''progress'', PBool True)];
          platform_config = get_cookies_for_platform plat;
          opts = dict_update opts0 platform_config;
          media_type_lower = py_lower mt
      in if media_type_lower \<in> set [''audio'', ''audio only'', ''audio-only''] then
           dict_update opts
             [(''format'', PStr ''bestaudio/best''),
              (''postprocessors'',
                 PList [PDict [(''key'', PStr ''FFmpegExtractAudio''),
                               (''preferredcodec'', PStr ''mp3''),
                               (''preferredquality'', PStr ''192'')]])]
         else if media_type_lower = ''photo'' then
           dict_update opts
             [(''format'', PStr ''best''),
              (''writethumbnail'', PBool True),
              (''skip_download'', PBool True)]
         else if plat = ''youtube'' then
           dict_update opts
             [(''format'',
                 PStr ''bestvideo[ext=mp4]+bestaudio[ext=m4a]/bestvideo+bestaudio/best''),
              (''merge_output_format'', PStr ''mp4'')]
         else if plat = ''facebook'' then
           dict_update opts
             [(''format'', PStr ''best''), (''merge_output_format'', PStr ''mp4'')]
         else if plat = ''twitter'' then dict_update opts [(''format'', PStr ''best'')]
         else if plat = ''instagram'' then dict_update opts [(''format'', PStr ''best'')]
         else if plat = ''linkedin'' then dict_update opts [(''format'', PStr ''best'')]
         else if plat = ''snapchat'' then dict_update opts [(''format'', PStr ''best'')]
         else
           dict_update opts
             [(''format'', PStr ''bestvideo+bestaudio/best''),
              (''merge_output_format'', PStr ''mp4'')])"

section \<open>Collaborators of the controller\<close>

text \<open>
  An exception is its class, as far as the handlers of \<^verbatim>\<open>download\<close> tell classes apart,
  and its message \<^verbatim>\<open>str(e)\<close>.
\<close>

datatype exn = DownloadError string | Exception string

definition exn_message :: "exn \<Rightarrow> string" where
  "exn_message e = (case e of DownloadError m \<Rightarrow> m | Exception m \<Rightarrow> m)"

text \<open>
  The keys of the engine's \<^verbatim>\<open>info\<close> dictionary that the module reads; \<open>None\<close> is a missing
  key. A thumbnail is its \<^verbatim>\<open>preference\<close> and its \<^verbatim>\<open>url\<close>.
\<close>

record info =
  i_ext :: "string option"
  i_vcodec :: "string option"
  i_thumbnail :: "string option"
  i_thumbnails :: "(int option \<times> string option) list"
  i_url :: "string option"
  i_title :: "string option"
  i_id :: "string option"

text \<open>
  The extraction engine (\<^verbatim>\<open>yt_dlp.YoutubeDL\<close>), as an arbitrary oracle of the options and
  the URL: \<open>ydl_open\<close> is the constructor, \<open>extract_info\<close> the metadata probe
  (\<^verbatim>\<open>download=False\<close>), \<open>extract_info_download\<close> the delegated download, which returns
  after calling the progress hook with the listed dictionaries, \<open>prepare_filename\<close> the
  predicted output path.
\<close>

record engine =
  ydl_open :: "pydict \<Rightarrow> exn option"
  extract_info :: "pydict \<Rightarrow> string \<Rightarrow> exn + info option"
  extract_info_download :: "pydict \<Rightarrow> string \<Rightarrow> (reading \<times> hook_dict) list \<times> (exn + info option)"
  prepare_filename :: "pydict \<Rightarrow> info option \<Rightarrow> exn + string"

text \<open>
  The answer of \<^verbatim>\<open>requests.get\<close>: \<open>content_length\<close> is
  \<^verbatim>\<open>int(response.headers.get('content-length', 0))\<close>, \<open>Inl msg\<close> where \<^verbatim>\<open>int\<close> raises;
  \<open>chunks\<close> are the lengths of the chunks of \<^verbatim>\<open>iter_content\<close>.
\<close>

record http_response =
  content_length :: "string + int"
  content_type :: string
  chunks :: "nat list"

text \<open>
  Everything outside the module: \<open>e_uuid4\<close> is \<^verbatim>\<open>str(uuid.uuid4())\<close>, \<open>e_hex8\<close> is
  \<^verbatim>\<open>uuid.uuid4().hex[:8]\<close>, \<open>e_clock n\<close> is the clock at the controller's \<open>n\<close>-th reading,
  \<open>e_requests_get\<close> is \<^verbatim>\<open>requests.get\<close> followed by \<^verbatim>\<open>raise_for_status\<close> (\<open>Inl msg\<close> where
  either raises), \<open>e_quote\<close> is \<^verbatim>\<open>quote(filename, safe='')\<close>.
\<close>

record env =
  e_uuid4 :: string
  e_hex8 :: string
  e_clock :: "nat \<Rightarrow> reading"
  e_os :: os
  e_engine :: engine
  e_requests_get :: "string \<Rightarrow> string + http_response"
  e_quote :: "string \<Rightarrow> string"

datatype body =
  ErrorBody string |
  SuccessBody string string string string string int

record response =
  resp_body :: body
  resp_code :: nat

text \<open>
  What a block of the controller does: it raises, it leaves \<^verbatim>\<open>download\<close> with a
  \<^verbatim>\<open>return\<close>, or it goes on with a value.
\<close>

datatype 'a outcome = Raise exn | Return response | Value 'a

text \<open>The controller's state: the store and the number of clock readings taken so far.\<close>

type_synonym ctl = "jobs \<times> nat"

definition upd ::
  "env \<Rightarrow> ctl \<Rightarrow> string \<Rightarrow> string \<Rightarrow> int option \<Rightarrow> int option \<Rightarrow> int option \<Rightarrow>
   string option \<Rightarrow> string option \<Rightarrow> string option \<Rightarrow> ctl" where
  "upd env s job_id st pc dl tot sp fn er =
     (update_job_progress (e_clock env (snd s)) (fst s) job_id st pc dl tot sp fn er,
      Suc (snd s))"

definition str_truthy :: "string option \<Rightarrow> bool" where
  "str_truthy x = (case x of None \<Rightarrow> False | Some v \<Rightarrow> v \<noteq> [])"

definition str_value :: "string option \<Rightarrow> string" where
  "str_value x = (case x of None \<Rightarrow> [] | Some v \<Rightarrow> v)"

section \<open>Direct image retrieval: \<^verbatim>\<open>download_image_directly\<close>\<close>

text \<open>
  The loop over \<^verbatim>\<open>response.iter_content\<close>. \<^verbatim>\<open>int(percent * 0.15)\<close> is computed on the
  exact product.
\<close>

fun write_chunks :: "env \<Rightarrow> string \<Rightarrow> int \<Rightarrow> ctl \<Rightarrow> int \<Rightarrow> nat list \<Rightarrow> ctl \<times> int" where
  "write_chunks env job_id total_size s downloaded [] = (s, downloaded)"
| "write_chunks env job_id total_size s downloaded (chunk # rest) =
     (if chunk \<noteq> 0 then
        (let downloaded' = downloaded + int chunk;
             s' = (if total_size > 0 then
                     (let pct = py_int_quot (downloaded' * 100) total_size;
                          adjusted_percent = 80 + py_int_quot (pct * 15) 100
                      in upd env s job_id ''downloading'' (Some adjusted_percent)
                           (Some downloaded') (Some total_size) None None None)
                   else s)
         in write_chunks env job_id total_size s' downloaded' rest)
      else write_chunks env job_id total_size s downloaded rest)"

text \<open>
  The result is \<open>Inl msg\<close> where the function raises an exception with the text \<open>msg\<close>
  (its caller catches every \<^verbatim>\<open>Exception\<close> and reads only the text), \<open>Inr filepath\<close> where
  it returns.
\<close>

definition download_image_directly :: "env \<Rightarrow> ctl \<Rightarrow> info \<Rightarrow> string \<Rightarrow> ctl \<times> (string + string)" where
  "download_image_directly env s0 nfo job_id =
     (let s1 = upd env s0 job_id ''downloading'' (Some 50) None None None None None;
          image_url =
            (if str_truthy (i_thumbnail nfo) then i_thumbnail nfo
             else if i_thumbnails nfo \<noteq> [] then
               snd (last (sort_key (\<lambda>x. case fst x of None \<Rightarrow> 0 | Some p \<Rightarrow> p)
                            (i_thumbnails nfo)))
             else if str_truthy (i_url nfo) then i_url nfo
             else None)
      in if \<not> str_truthy image_url
         then (s1, Inl ''No image URL found in media information'')
         else
           (let s2 = upd env s1 job_id ''downloading'' (Some 60) None None None None None;
                title = (if str_truthy (i_title nfo) then str_value (i_title nfo)
                         else if str_truthy (i_id nfo) then str_value (i_id nfo)
                         else ''image'');
                media_id = (case i_id nfo of None \<Rightarrow> e_hex8 env | Some v \<Rightarrow> v);
                safe_title = safe_filename title;
                filename0 = safe_title @ ''_'' @ media_id @ ''.jpg'';
                filepath0 = path_join (e_os env) (DOWNLOAD_DIR (e_os env)) filename0;
                s3 = upd env s2 job_id ''downloading'' (Some 70) None None None None None
            in case e_requests_get env (str_value image_url) of
                 Inl msg \<Rightarrow> (s3, Inl msg)
               | Inr response \<Rightarrow>
                   (case content_length response of
                      Inl msg \<Rightarrow> (s3, Inl msg)
                    | Inr total_size \<Rightarrow>
                        (let ct = py_lower (content_type response);
                             filepath =
                               (if sublist ''png'' ct then py_replace ''.jpg'' ''.png'' filepath0
                                else if sublist ''webp'' ct
                                then py_replace ''.jpg'' ''.webp'' filepath0
                                else if sublist ''gif'' ct
                                then py_replace ''.jpg'' ''.gif'' filepath0
                                else filepath0);
                             s4 = upd env s3 job_id ''downloading'' (Some 80) (Some 0)
                                    (Some total_size) None None None
                         in case open_wb_raises (e_os env) filepath of
                              Some msg \<Rightarrow> (s4, Inl msg)
                            | None \<Rightarrow>
                                (let s5 = fst (write_chunks env job_id total_size s4 0
                                                 (chunks response));
                                     s6 = upd env s5 job_id ''downloading'' (Some 95) None None
                                            None None None
                                 in if \<not> path_exists (e_os env) filepath \<or>
                                       getsize (e_os env) filepath = 0
                                    then (s6, Inl ''Image download failed - file is empty'')
                                    else (s6, Inr filepath))))))"

section \<open>JobLifecycleController: \<^verbatim>\<open>download\<close>\<close>

text \<open>
  The JSON object of the request: its keys \<^verbatim>\<open>url\<close> and \<^verbatim>\<open>mediaType\<close>, \<open>None\<close> where the key
  is absent. The defaults of \<^verbatim>\<open>data.get("url", "")\<close> and \<^verbatim>\<open>data.get("mediaType", "Video")\<close>
  are applied in \<^verbatim>\<open>download\<close>.
\<close>

record request_json =
  r_url :: "string option"
  r_mediaType :: "string option"

text \<open>
  The handler of the metadata probe: the text of the exception it raises in place of the
  engine's, which is a plain \<^verbatim>\<open>Exception\<close>.
\<close>

definition probe_error_message :: "string \<Rightarrow> string \<Rightarrow> string" where
  "probe_error_message error_msg plat =
     (let m = py_lower error_msg
      in if sublist ''private'' m then ''This content is private and cannot be downloaded''
         else if sublist ''not available'' m \<or> sublist ''unavailable'' m
         then ''This content is not available or has been removed''
         else if sublist ''login'' m \<or> sublist ''sign in'' m
         then ''This content requires login. Please use public content.''
         else if sublist ''unsupported url'' m then ''This URL is not supported for '' @ plat
         else ''Cannot access this content: '' @ error_msg)"

text \<open>The message of the response in the handler \<^verbatim>\<open>except yt_dlp.utils.DownloadError\<close>.\<close>

definition friendly_message :: "string \<Rightarrow> string" where
  "friendly_message error_msg =
     (let m = py_lower error_msg
      in if sublist ''private'' m then ''This content is private and cannot be downloaded''
         else if sublist ''not available'' m \<or> sublist ''video unavailable'' m
         then ''This content is not available or has been removed''
         else if sublist ''login'' m \<or> sublist ''sign in'' m
         then ''This content requires login and cannot be downloaded''
         else if sublist ''unsupported url'' m then ''This URL format is not supported''
         else error_msg)"

text \<open>The branch \<^verbatim>\<open>PHOTO HANDLING\<close>.\<close>

definition photo_handling ::
  "env \<Rightarrow> ctl \<Rightarrow> string \<Rightarrow> string \<Rightarrow> info \<Rightarrow> string \<Rightarrow> ctl \<times> string outcome" where
  "photo_handling env s job_id url nfo plat =
     (let file_ext = py_lower (str_value (i_ext nfo));
          vcodec = str_value (i_vcodec nfo);
          is_image =
            (if file_ext \<in> set [''jpg'', ''jpeg'', ''png'', ''webp'', ''gif''] then True
             else if vcodec = ''none'' \<and> str_truthy (i_thumbnail nfo) then True
             else if plat = ''instagram'' \<and> (sublist ''/p/'' url \<or> sublist ''img'' url) then True
             else if str_truthy (i_thumbnail nfo) \<and> \<not> str_truthy (i_url nfo) then True
             else False)
      in case download_image_directly env s nfo job_id of
           (s', Inr final_path) \<Rightarrow> (s', Value final_path)
         | (s', Inl img_error) \<Rightarrow>
             if \<not> is_image then
               (upd env s' job_id ''error'' None None None None None
                  (Some ''This URL contains a video, not a photo''),
                Return \<lparr>resp_body = ErrorBody (''This URL contains a video, not a photo. '' @
                                      ''Please select 'Video' or 'Reel' instead.''),
                        resp_code = 400\<rparr>)
             else (s', Raise (Exception (''Failed to download photo: '' @ img_error))))"

text \<open>
  The branch \<^verbatim>\<open>VIDEO/AUDIO HANDLING\<close>. The engine runs the hook while the controller
  waits in \<^verbatim>\<open>extract_info\<close>. The reading of the clock in \<^verbatim>\<open>find_downloaded_file\<close> is the
  controller's next one.
\<close>

definition video_audio_handling ::
  "env \<Rightarrow> ctl \<Rightarrow> string \<Rightarrow> string \<Rightarrow> string \<Rightarrow> pydict \<Rightarrow> ctl \<times> string outcome" where
  "video_audio_handling env s job_id url mt ydl_opts =
     (let os = e_os env;
          s1 = upd env s job_id ''preparing'' (Some 45) None None None None None
      in case extract_info_download (e_engine env) ydl_opts url of
           (events, result) \<Rightarrow>
             (let s2 = (run_hook job_id (fst s1) events, snd s1)
              in case result of
                   Inl download_error \<Rightarrow>
                     (let error_msg = exn_message download_error
                      in if sublist ''format'' (py_lower error_msg)
                         then (s2, Raise (Exception
                                 ''No suitable video/audio format found for this content''))
                         else (s2, Raise (Exception (''Download failed: '' @ error_msg))))
                 | Inr nfo \<Rightarrow>
                     (case prepare_filename (e_engine env) ydl_opts nfo of
                        Inl e \<Rightarrow> (s2, Raise e)
                      | Inr prepared \<Rightarrow>
                          (let s3 = upd env s2 job_id ''finding file'' (Some 90) None None None
                                      None None;
                               found = find_downloaded_file os (time_time (e_clock env (snd s3)))
                                         prepared mt (DOWNLOAD_DIR os);
                               s4 = (fst s3, Suc (snd s3))
                           in if str_truthy found then (s4, Value (str_value found))
                              else
                                (let recent = glob_star os (DOWNLOAD_DIR os)
                                 in case List.find (\<lambda>f. isl (getctime os f)) recent of
                                      Some f \<Rightarrow>
                                        (s4, Raise (Exception
                                           (case getctime os f of Inl msg \<Rightarrow> msg | Inr t \<Rightarrow> [])))
                                    | None \<Rightarrow>
                                        (let final_path =
                                               (case recent of
                                                  [] \<Rightarrow> found
                                                | f # fs \<Rightarrow> Some (max_by (ctime_of os) f fs))
                                         in if \<not> str_truthy final_path \<or>
                                               \<not> path_exists os (str_value final_path)
                                            then (s4, Raise (Exception
                                                   (''Download completed but '' @ mt @
                                                    '' file not found. Please try again.'')))
                                            else (s4, Value (str_value final_path))))))))"

text \<open>
  From \<^verbatim>\<open>Verify file exists and has content\<close> to the end of the \<^verbatim>\<open>try\<close> block.
  The fields of \<open>SuccessBody\<close> are \<^verbatim>\<open>job_id\<close>, \<^verbatim>\<open>filename\<close>, \<^verbatim>\<open>download_url\<close>, \<^verbatim>\<open>platform\<close>,
  \<^verbatim>\<open>media_type\<close> and \<^verbatim>\<open>file_size\<close>; \<^verbatim>\<open>status\<close> is \<^verbatim>\<open>"success"\<close>.
\<close>

definition finalize ::
  "env \<Rightarrow> ctl \<Rightarrow> string \<Rightarrow> string \<Rightarrow> string \<Rightarrow> string \<Rightarrow> ctl \<times> (exn + response)" where
  "finalize env s job_id final_path plat mt =
     (let os = e_os env
      in if \<not> path_exists os final_path
         then (s, Inl (Exception ''Download completed but file not found on server''))
         else
           (let file_size = getsize os final_path
            in if file_size = 0 then (s, Inl (Exception ''Downloaded file is empty''))
               else
                 (let filename0 = basename os final_path;
                      safe_name = safe_filename filename0;
                      renamed =
                        (if safe_name \<noteq> filename0 then
                           (let new_path = path_join os (DOWNLOAD_DIR os) safe_name;
                                clash = path_exists os new_path;
                                safe_name' =
                                  (if clash then
                                     (case splitext os safe_name of
                                        (name, ext) \<Rightarrow>
                                          name @ ''_'' @
                                          str_int \<lfloor>time_time (e_clock env (snd s))\<rfloor> @ ext)
                                   else safe_name);
                                new_path' =
                                  (if clash then path_join os (DOWNLOAD_DIR os) safe_name'
                                   else new_path);
                                n = (if clash then Suc (snd s) else snd s)
                            in if rename_raises os final_path new_path'
                               then (basename os final_path, n)
                               else (safe_name', n))
                         else (filename0, snd s));
                      fname = fst renamed;
                      s' = upd env (fst s, snd renamed) job_id ''done'' (Some 100) None None None
                             (Some fname) None
                  in (s', Inr
                        \<lparr>resp_body =
                           SuccessBody job_id fname
                             (''http://127.0.0.1:5000/files/'' @ e_quote env fname) plat mt
                             file_size,
                         resp_code = 200\<rparr>))))"

text \<open>
  The \<^verbatim>\<open>try\<close> block from the first progress update on: \<open>Inl e\<close> where it raises \<open>e\<close>,
  \<open>Inr r\<close> where it returns the response \<open>r\<close>.
\<close>

definition download_job ::
  "env \<Rightarrow> ctl \<Rightarrow> string \<Rightarrow> string \<Rightarrow> string \<Rightarrow> string \<Rightarrow> ctl \<times> (exn + response)" where
  "download_job env s0 job_id url mt plat =
     (let s1 = upd env s0 job_id ''starting'' (Some 10) None None None None None;
          ydl_opts = make_ydl_opts (e_os env) job_id mt plat
      in case ydl_open (e_engine env) ydl_opts of
           Some e \<Rightarrow> (s1, Inl e)
         | None \<Rightarrow>
             (let s2 = upd env s1 job_id ''extracting info'' (Some 20) None None None None None
              in case extract_info (e_engine env) ydl_opts url of
                   Inl extract_error \<Rightarrow>
                     (s2, Inl (Exception
                            (probe_error_message (exn_message extract_error) plat)))
                 | Inr None \<Rightarrow>
                     (s2, Inl (Exception ''Could not extract media information from URL''))
                 | Inr (Some nfo) \<Rightarrow>
                     (let s3 = upd env s2 job_id ''extracting info'' (Some 35) None None None
                                 None None
                      in case (if py_lower mt = ''photo''
                               then photo_handling env s3 job_id url nfo plat
                               else video_audio_handling env s3 job_id url mt ydl_opts) of
                           (s4, Value final_path) \<Rightarrow> finalize env s4 job_id final_path plat mt
                         | (s4, Raise e) \<Rightarrow> (s4, Inl e)
                         | (s4, Return r) \<Rightarrow> (s4, Inr r))))"

text \<open>
  The endpoint \<^verbatim>\<open>POST /download\<close>: the response and the store it leaves. The first clock
  reading is the one of the job's creation.
\<close>

definition download :: "env \<Rightarrow> jobs \<Rightarrow> request_json \<Rightarrow> response \<times> jobs" where
  "download env J data =
     (let url = sanitize_url (r_url data);
          mt = (case r_mediaType data of None \<Rightarrow> ''Video'' | Some m \<Rightarrow> m)
      in if url = [] then
           (\<lparr>resp_body = ErrorBody ''URL is required'', resp_code = 400\<rparr>, J)
         else if \<not> (prefix ''http://'' url \<or> prefix ''https://'' url) then
           (\<lparr>resp_body = ErrorBody
               ''Invalid URL format. URL must start with http:// or https://'',
             resp_code = 400\<rparr>, J)
         else
           (let plat = detect_platform url
            in if plat = ''unknown'' then
                 (\<lparr>resp_body = ErrorBody
                     (''Unsupported platform. Please use Instagram, Facebook, YouTube, '' @
                      ''Twitter/X, LinkedIn, or Snapchat URLs.''),
                   resp_code = 400\<rparr>, J)
               else
                 (let job_id = e_uuid4 env;
                      s0 = (AList.update job_id (new_job plat mt (e_clock env 0)) J, Suc 0)
                  in case download_job env s0 job_id url mt plat of
                       (s, Inr r) \<Rightarrow> (r, fst s)
                     | (s, Inl (DownloadError error_msg)) \<Rightarrow>
                         (let s' = (if job_id \<noteq> [] then
                                      upd env s job_id ''error'' None None None None None
                                        (Some error_msg)
                                    else s)
                          in (\<lparr>resp_body = ErrorBody (friendly_message error_msg),
                               resp_code = 400\<rparr>, fst s'))
                     | (s, Inl (Exception error_msg)) \<Rightarrow>
                         (let s' = (if job_id \<noteq> [] then
                                      upd env s job_id ''error'' None None None None None
                                        (Some error_msg)
                                    else s)
                          in (\<lparr>resp_body = ErrorBody error_msg, resp_code = 500\<rparr>, fst s')))))"

section \<open>ProgressStreamer: the generator \<^verbatim>\<open>event_stream\<close> of \<^verbatim>\<open>progress\<close>\<close>

definition get_status_message :: "string \<Rightarrow> int \<Rightarrow> string" where
  "get_status_message st pc =
     (let messages =
        [(''queued'', ''Waiting to start...''),
         (''starting'', ''Starting download...''),
         (''extracting info'', ''Extracting media information...''),
         (''preparing'', ''Preparing download...''),
         (''downloading'', ''Downloading... '' @ str_int pc @ ''%''),
         (''processing'', ''Processing media file...''),
         (''finding file'', ''Finalizing download...''),
         (''done'', ''Download complete!''),
         (''error'', ''An error occurred'')]
      in case map_of messages st of
           Some m \<Rightarrow> m
         | None \<Rightarrow> ''Processing... '' @ str_int pc @ ''%'')"

text \<open>
  An event is one \<^verbatim>\<open>data: <json>\<close> frame. \<open>ErrorEvent m\<close> is the object with the keys
  \<^verbatim>\<open>status\<close> (\<^verbatim>\<open>"error"\<close>) and \<^verbatim>\<open>message\<close>; \<open>InitialEvent\<close> is the first snapshot, which has no
  key \<^verbatim>\<open>estimated_time\<close>; \<open>PayloadEvent\<close> is the payload of the loop. Two frames are the
  same text exactly when the events are equal.
\<close>

record payload =
  p_status :: string
  p_percent :: int
  p_downloaded_bytes :: int
  p_total_bytes :: int
  p_speed :: string
  p_filename :: "string option"
  p_error :: "string option"
  p_estimated_time :: "string option"
  p_message :: "string option"

datatype event = ErrorEvent string | InitialEvent payload | PayloadEvent payload

text \<open>
  What the generator observes: at its start the store at the membership test, two clock
  readings and the store at the first \<^verbatim>\<open>JOBS.get\<close>; in each pass of the loop the store
  and the clock at the four places that read it.
\<close>

record stream_start =
  jobs_at_test :: jobs
  t_start :: real
  t_last_progress :: real
  jobs_at_first_get :: jobs

record poll =
  jobs_seen :: jobs
  t_elapsed :: real
  t_heartbeat :: real
  t_sent :: real
  t_timeout :: real

definition estimated_time_of :: "job \<Rightarrow> real \<Rightarrow> string option" where
  "estimated_time_of j now =
     (if percent j > 0 \<and> percent j < 100 then
        (let elapsed = now - start_time j
         in if elapsed > 0 \<and> percent j > 5 then
              (let total_estimated = elapsed / (real_of_int (percent j) / 100);
                   remaining = total_estimated - elapsed
               in if remaining > 0 then
                    (if remaining > 60
                     then Some (str_int \<lfloor>remaining / 60\<rfloor> @ ''m '' @
                                str_int \<lfloor>remaining - 60 * of_int \<lfloor>remaining / 60\<rfloor>\<rfloor> @ ''s'')
                     else Some (str_int \<lfloor>remaining\<rfloor> @ ''s''))
                  else None)
            else None)
      else None)"

text \<open>
  The loop \<^verbatim>\<open>while True\<close>, one pass per observation. The result is the events yielded and
  whether the generator has returned; with no observation left it is suspended in
  \<^verbatim>\<open>time.sleep\<close> and the stream is still open.
\<close>

fun stream_loop ::
  "string \<Rightarrow> real \<Rightarrow> event option \<Rightarrow> real \<Rightarrow> poll list \<Rightarrow> event list \<times> bool" where
  "stream_loop job_id start last_sent last_progress_time [] = ([], False)"
| "stream_loop job_id start last_sent last_progress_time (p # ps) =
     (case map_of (jobs_seen p) job_id of
        None \<Rightarrow> ([ErrorEvent ''Job not found''], True)
      | Some j \<Rightarrow>
          (let pl = \<lparr>p_status = status j, p_percent = percent j,
                     p_downloaded_bytes = downloaded_bytes j, p_total_bytes = total_bytes j,
                     p_speed = speed j, p_filename = filename j, p_error = error j,
                     p_estimated_time = estimated_time_of j (t_elapsed p),
                     p_message = Some (get_status_message (status j) (percent j))\<rparr>;
               encoded = PayloadEvent pl;
               send = (Some encoded \<noteq> last_sent \<or> t_heartbeat p - last_progress_time > 1);
               sent = (if send then [encoded] else []);
               last_sent' = (if send then Some encoded else last_sent);
               last_progress_time' = (if send then t_sent p else last_progress_time)
           in if status j = ''done'' \<or> status j = ''error'' then
                (sent @
                 [PayloadEvent
                    (if status j = ''done''
                     then pl\<lparr>p_percent := 100, p_message := Some ''Download complete!''\<rparr>
                     else pl)], True)
              else if t_timeout p - start > 60 * 10 then
                (sent @ [ErrorEvent ''Download timeout - please try again''], True)
              else
                (case stream_loop job_id start last_sent' last_progress_time' ps of
                   (rest, fin) \<Rightarrow> (sent @ rest, fin))))"

definition event_stream :: "string \<Rightarrow> stream_start \<Rightarrow> poll list \<Rightarrow> event list \<times> bool" where
  "event_stream job_id st polls =
     (if map_of (jobs_at_test st) job_id = None then ([ErrorEvent ''Job not found''], True)
      else
        (let first =
               (case map_of (jobs_at_first_get st) job_id of
                  None \<Rightarrow> None
                | Some j \<Rightarrow>
                    Some (InitialEvent
                      \<lparr>p_status = status j, p_percent = percent j,
                       p_downloaded_bytes = downloaded_bytes j, p_total_bytes = total_bytes j,
                       p_speed = speed j, p_filename = filename j, p_error = error j,
                       p_estimated_time = None,
                       p_message = (if status j = ''starting'' then Some ''Starting download...''
                                    else None)\<rparr>))
         in case stream_loop job_id (t_start st) first (t_last_progress st) polls of
              (rest, fin) \<Rightarrow> ((case first of None \<Rightarrow> [] | Some e \<Rightarrow> [e]) @ rest, fin)))"

section \<open>Example inputs\<close>

text \<open>
  Concrete stores, hook dictionaries and collaborators on which the properties below are
  evaluated: a POSIX file system holding the listed files, an engine that answers the probe
  and the download as told and predicts \<^verbatim>\<open>/srv/downloads/clip.mp4\<close>, and a clock that
  advances one second per reading.
\<close>

definition demo_reading :: "real \<Rightarrow> reading" where
  "demo_reading t = \<lparr>time_time = t, now_isoformat = ''2026-01-01T00:00:00''\<rparr>"

definition demo_job :: job where
  "demo_job = new_job ''youtube'' ''Video'' (demo_reading 0)"

definition demo_downloading :: "int \<Rightarrow> int \<Rightarrow> hook_dict" where
  "demo_downloading b t =
     \<lparr>d_status = Some ''downloading'', d_total_bytes = Some t, d_total_bytes_estimate = None,
      d_downloaded_bytes = Some b, d_speed = None, d_error = None\<rparr>"

definition demo_status_job :: "string \<Rightarrow> real \<Rightarrow> job" where
  "demo_status_job st t0 = (new_job ''youtube'' ''Video'' (demo_reading t0))\<lparr>status := st\<rparr>"

definition demo_os :: "string list \<Rightarrow> os" where
  "demo_os files =
     \<lparr>DOWNLOAD_DIR = ''/srv/downloads'',
      path_exists = (\<lambda>p. p \<in> set files),
      getsize = (\<lambda>p. if p \<in> set files then 1024 else 0),
      getctime = (\<lambda>p. if p \<in> set files then Inr 0 else Inl ''No such file or directory''),
      glob_star = (\<lambda>d. filter (prefix (d @ ''/'')) files),
      path_join = (\<lambda>a b. a @ ''/'' @ b),
      basename = (\<lambda>p. rev (takeWhile (\<lambda>c. c \<noteq> CHR ''/'') (rev p))),
      sep = CHR ''/'',
      altsep = None,
      rename_raises = (\<lambda>a b. False),
      open_wb_raises = (\<lambda>p. None)\<rparr>"

definition demo_finished :: hook_dict where
  "demo_finished =
     \<lparr>d_status = Some ''finished'', d_total_bytes = None, d_total_bytes_estimate = None,
      d_downloaded_bytes = None, d_speed = None, d_error = None\<rparr>"


definition demo_engine ::
  "(exn + info option) \<Rightarrow> (reading \<times> hook_dict) list \<times> (exn + info option) \<Rightarrow> engine" where
  "demo_engine probe fetch =
     \<lparr>ydl_open = (\<lambda>opts. None),
      extract_info = (\<lambda>opts url. probe),
      extract_info_download = (\<lambda>opts url. fetch),
      prepare_filename = (\<lambda>opts nfo. Inr ''/srv/downloads/clip.mp4'')\<rparr>"

definition demo_env :: "string list \<Rightarrow> engine \<Rightarrow> env" where
  "demo_env files eng =
     \<lparr>e_uuid4 = ''job-1'', e_hex8 = ''0a1b2c3d'', e_clock = (\<lambda>n. demo_reading (real n)),
      e_os = demo_os files, e_engine = eng,
      e_requests_get = (\<lambda>u. Inl ''connection refused''), e_quote = (\<lambda>f. f)\<rparr>"

definition demo_request :: "string \<Rightarrow> request_json" where
  "demo_request u = \<lparr>r_url = Some u, r_mediaType = None\<rparr>"



section \<open>Predicates on the record of one job\<close>



definition failed :: "string \<Rightarrow> string \<Rightarrow> job \<Rightarrow> bool" where
  "failed plat mt j =
     (status j = ''error'' \<and> filename j = None \<and> (\<exists>m. error j = Some m) \<and>
      platform j = plat \<and> media_type j = mt)"





section \<open>The hostname reading of the specification\<close>



section \<open>Properties of the store\<close>

lemma map_of_update_job_progress_other:
  "k \<noteq> job_id \<Longrightarrow>
   map_of (update_job_progress rd J job_id st pc dl tot sp fn er) k = map_of J k"
  by (simp add: update_job_progress_def Let_def update_conv' split: option.splits)

lemma keys_update_job_progress:
  "map fst (update_job_progress rd J job_id st pc dl tot sp fn er) = map fst J"
  by (auto simp: update_job_progress_def Let_def update_keys map_of_eq_None_iff image_iff
      split: option.splits)


text \<open>
  Claim C7. A call of \<^verbatim>\<open>update_job_progress\<close> for a job id that is not in the store
  returns the store as it was. For an id that is in the store, each of \<^verbatim>\<open>percent\<close>,
  \<^verbatim>\<open>downloaded_bytes\<close>, \<^verbatim>\<open>total_bytes\<close>, \<^verbatim>\<open>filename\<close> and \<^verbatim>\<open>error\<close> keeps its value where the
  argument is \<^verbatim>\<open>None\<close> and takes the argument otherwise, \<^verbatim>\<open>status\<close> takes the (non-empty)
  argument, \<^verbatim>\<open>speed\<close> keeps its value or takes the argument as long as no byte count is
  given, and \<^verbatim>\<open>platform\<close>, \<^verbatim>\<open>media_type\<close> and \<^verbatim>\<open>start_time\<close> never change; \<^verbatim>\<open>last_update\<close>
  is the time of the call. No other record changes, nor the order of the keys.
\<close>

theorem update_job_progress_partial:
  "(map_of J job_id = None \<longrightarrow> update_job_progress rd J job_id st pc dl tot sp fn er = J) \<and>
   (\<forall>j. map_of J job_id = Some j \<longrightarrow>
      (\<exists>j'. map_of (update_job_progress rd J job_id st pc dl tot sp fn er) job_id = Some j' \<and>
         status j' = (if st = [] then status j else st) \<and>
         percent j' = (case pc of None \<Rightarrow> percent j | Some p \<Rightarrow> p) \<and>
         downloaded_bytes j' = (case dl of None \<Rightarrow> downloaded_bytes j | Some b \<Rightarrow> b) \<and>
         total_bytes j' = (case tot of None \<Rightarrow> total_bytes j | Some t \<Rightarrow> t) \<and>
         filename j' = (case fn of None \<Rightarrow> filename j | Some f \<Rightarrow> Some f) \<and>
         error j' = (case er of None \<Rightarrow> error j | Some e \<Rightarrow> Some e) \<and>
         (dl = None \<longrightarrow> speed j' = (case sp of None \<Rightarrow> speed j | Some s \<Rightarrow> s)) \<and>
         platform j' = platform j \<and> media_type j' = media_type j \<and>
         start_time j' = start_time j \<and> last_update j' = now_isoformat rd)) \<and>
   (\<forall>k. k \<noteq> job_id \<longrightarrow>
      map_of (update_job_progress rd J job_id st pc dl tot sp fn er) k = map_of J k) \<and>
   map fst (update_job_progress rd J job_id st pc dl tot sp fn er) = map fst J"
proof (intro conjI allI impI)
  show "update_job_progress rd J job_id st pc dl tot sp fn er = J" if "map_of J job_id = None"
    using that by (simp add: update_job_progress_def)
next
  fix j assume "map_of J job_id = Some j"
  then show "\<exists>j'. map_of (update_job_progress rd J job_id st pc dl tot sp fn er) job_id = Some j' \<and>
         status j' = (if st = [] then status j else st) \<and>
         percent j' = (case pc of None \<Rightarrow> percent j | Some p \<Rightarrow> p) \<and>
         downloaded_bytes j' = (case dl of None \<Rightarrow> downloaded_bytes j | Some b \<Rightarrow> b) \<and>
         total_bytes j' = (case tot of None \<Rightarrow> total_bytes j | Some t \<Rightarrow> t) \<and>
         filename j' = (case fn of None \<Rightarrow> filename j | Some f \<Rightarrow> Some f) \<and>
         error j' = (case er of None \<Rightarrow> error j | Some e \<Rightarrow> Some e) \<and>
         (dl = None \<longrightarrow> speed j' = (case sp of None \<Rightarrow> speed j | Some s \<Rightarrow> s)) \<and>
         platform j' = platform j \<and> media_type j' = media_type j \<and>
         start_time j' = start_time j \<and> last_update j' = now_isoformat rd"
    by (simp add: update_job_progress_def Let_def update_conv' split: option.splits)
next
  fix k assume "k \<noteq> job_id"
  then show "map_of (update_job_progress rd J job_id st pc dl tot sp fn er) k = map_of J k"
    by (rule map_of_update_job_progress_other)
next
  show "map fst (update_job_progress rd J job_id st pc dl tot sp fn er) = map fst J"
    by (rule keys_update_job_progress)
qed

theorem update_job_progress_partial_witness:
  "update_job_progress (demo_reading 5) [(''j1'', demo_job)] ''zz'' ''downloading'' (Some 30)
      None None None None None = [(''j1'', demo_job)] \<and>
   map_option percent (map_of (update_job_progress (demo_reading 5) [(''j1'', demo_job)] ''j1''
      ''downloading'' (Some 30) None None None None None) ''j1'') = Some 30 \<and>
   map_option filename (map_of (update_job_progress (demo_reading 5) [(''j1'', demo_job)] ''j1''
      ''downloading'' (Some 30) None None None None None) ''j1'') = Some None"
  using update_job_progress_partial [of "[(''j1'', demo_job)]" "''zz''" "demo_reading 5"
          "''downloading''" "Some 30" None None None None None]
        update_job_progress_partial [of "[(''j1'', demo_job)]" "''j1''" "demo_reading 5"
          "''downloading''" "Some 30" None None None None None]
  by (auto simp: demo_job_def new_job_def)

section \<open>Properties of the progress hook\<close>



section \<open>Properties of the stream\<close>

text \<open>
  Claim C8. When the job id is not in the store at the moment the generator starts, the
  stream consists of exactly one event, the error event \<^verbatim>\<open>Job not found\<close>, and the
  generator has returned, whatever the store and the clock do afterwards.
\<close>

theorem stream_unknown_job:
  "map_of (jobs_at_test st) job_id = None \<Longrightarrow>
   event_stream job_id st polls = ([ErrorEvent ''Job not found''], True)"
  by (simp add: event_stream_def)

theorem stream_unknown_job_witness:
  "map_of (jobs_at_test \<lparr>jobs_at_test = [], t_start = 0, t_last_progress = 0,
                         jobs_at_first_get = []\<rparr>) ''j1'' = None \<and>
   event_stream ''j1'' \<lparr>jobs_at_test = [], t_start = 0, t_last_progress = 0,
                         jobs_at_first_get = []\<rparr> [] = ([ErrorEvent ''Job not found''], True)"
  using stream_unknown_job [of "\<lparr>jobs_at_test = [], t_start = 0, t_last_progress = 0,
                                 jobs_at_first_get = []\<rparr>" "''j1''" "[]"]
  by simp

section \<open>Properties of the Reaper\<close>

lemma foldl_delete_filter:
  "foldl (\<lambda>acc k. AList.delete k acc) J ks = filter (\<lambda>p. fst p \<notin> set ks) J"
proof (induction ks arbitrary: J)
  case Nil
  then show ?case by simp
next
  case (Cons k ks)
  have "AList.delete k J = filter (\<lambda>p. fst p \<noteq> k) J"
    by (auto simp: AList.delete_eq intro: filter_cong)
  then show ?case
    using Cons.IH [of "AList.delete k J"] by (auto intro: filter_cong)
qed

lemma distinct_keys_unique:
  "distinct (map fst J) \<Longrightarrow> (k, a) \<in> set J \<Longrightarrow> (k, b) \<in> set J \<Longrightarrow> a = b"
  by (metis map_of_is_SomeI option.inject)

text \<open>
  Claim C9. One pass of the Reaper over a store with distinct keys removes exactly the
  records whose status is \<^verbatim>\<open>done\<close> or \<^verbatim>\<open>error\<close> and whose \<^verbatim>\<open>start_time\<close> lies strictly more than
  3600 seconds before the pass; every other record stays, in its place. A record that is
  not terminal is therefore never removed, whatever its age.
\<close>

theorem cleanup_old_jobs_exact:
  assumes "distinct (map fst J)"
  shows "cleanup_old_jobs current_time J =
           filter (\<lambda>(job_id, j). \<not> ((status j = ''done'' \<or> status j = ''error'') \<and>
                                     current_time - start_time j > 3600)) J"
proof -
  let ?old = "\<lambda>(job_id :: string, j). (status j = ''done'' \<or> status j = ''error'') \<and>
                                     current_time - start_time j > 3600"
  have "fst p \<notin> set (map fst (filter ?old J)) \<longleftrightarrow> \<not> ?old p" if "p \<in> set J" for p
  proof -
    obtain k j where p: "p = (k, j)" by (cases p)
    show ?thesis
    proof
      assume "fst p \<notin> set (map fst (filter ?old J))"
      then show "\<not> ?old p" using that by force
    next
      assume n: "\<not> ?old p"
      show "fst p \<notin> set (map fst (filter ?old J))"
      proof
        assume "fst p \<in> set (map fst (filter ?old J))"
        then obtain j' where j': "(k, j') \<in> set J" "?old (k, j')" using p by auto
        with that p assms have "j' = j" by (metis distinct_keys_unique)
        with j' n p show False by simp
      qed
    qed
  qed
  note key = this
  have "cleanup_old_jobs current_time J =
          filter (\<lambda>p. fst p \<notin> set (map fst (filter ?old J))) J"
    by (simp add: cleanup_old_jobs_def foldl_delete_filter)
  also have "\<dots> = filter (\<lambda>(job_id, j). \<not> ((status j = ''done'' \<or> status j = ''error'') \<and>
                                     current_time - start_time j > 3600)) J"
  proof (rule filter_cong [OF refl])
    fix p assume "p \<in> set J"
    from key [OF this] show "(fst p \<notin> set (map fst (filter ?old J))) =
      (case p of (job_id, j) \<Rightarrow> \<not> ((status j = ''done'' \<or> status j = ''error'') \<and>
                                     current_time - start_time j > 3600))"
      by (cases p) simp
  qed
  finally show ?thesis .
qed

theorem cleanup_old_jobs_exact_witness:
  "distinct (map fst [(''a'', demo_status_job ''done'' 0), (''b'', demo_status_job ''done'' 2),
                      (''c'', demo_status_job ''downloading'' 0)]) \<and>
   cleanup_old_jobs 3601 [(''a'', demo_status_job ''done'' 0), (''b'', demo_status_job ''done'' 2),
                          (''c'', demo_status_job ''downloading'' 0)] =
     [(''b'', demo_status_job ''done'' 2), (''c'', demo_status_job ''downloading'' 0)]"
proof -
  have d: "distinct (map fst [(''a'', demo_status_job ''done'' 0), (''b'', demo_status_job ''done'' 2),
                      (''c'', demo_status_job ''downloading'' 0)])"
    by simp
  show ?thesis
    using d cleanup_old_jobs_exact [OF d, of 3601]
    by (simp add: demo_status_job_def new_job_def demo_reading_def)
qed

section \<open>Properties of the resolver\<close>

lemma rfind_ge: "- 1 \<le> rfind c s"
proof (cases "c \<in> set s")
  case True
  then have "dropWhile (\<lambda>x. x \<noteq> c) (rev s) \<noteq> []"
    by simp
  then have "0 < length (dropWhile (\<lambda>x. x \<noteq> c) (rev s))" by simp
  moreover have "length (takeWhile (\<lambda>x. x \<noteq> c) (rev s)) +
      length (dropWhile (\<lambda>x. x \<noteq> c) (rev s)) = length s"
    by (metis length_append length_rev takeWhile_dropWhile_id)
  ultimately show ?thesis using True by (simp add: rfind_def)
next
  case False
  then show ?thesis by (simp add: rfind_def)
qed

lemma splitext_base_nonempty: "p \<noteq> [] \<Longrightarrow> fst (splitext os p) \<noteq> []"
proof -
  assume p: "p \<noteq> []"
  define sepIndex where "sepIndex = (case altsep os of None \<Rightarrow> rfind (sep os) p
                      | Some a \<Rightarrow> max (rfind (sep os) p) (rfind a p))"
  define dotIndex where "dotIndex = rfind CHR ''.'' p"
  have sep: "- 1 \<le> sepIndex"
    by (simp add: sepIndex_def rfind_ge le_max_iff_disj split: option.splits)
  have "0 < dotIndex"
    if "list_ex (\<lambda>c. c \<noteq> CHR ''.'')
          (take (nat (dotIndex - (sepIndex + 1))) (drop (nat (sepIndex + 1)) p))"
  proof -
    from that have "take (nat (dotIndex - (sepIndex + 1))) (drop (nat (sepIndex + 1)) p) \<noteq> []"
      by (auto simp: list_ex_iff)
    then have "nat (dotIndex - (sepIndex + 1)) \<noteq> 0" by (metis take_0)
    with sep show ?thesis by simp
  qed
  then show ?thesis
    using p by (auto simp: splitext_def Let_def sepIndex_def [symmetric] dotIndex_def [symmetric])
qed

text \<open>
  Claim C6. Let the predicted path be non-empty and absent from the disk, and let some
  extension of the kind's list exist beside its base name. Then the resolver returns the
  base name with the first extension of the list, in the list's order, that exists on the
  disk. The list of the audio kind is mp3, m4a, opus, ogg, wav, aac, so with the mp3 file
  present the answer is the mp3 file, whichever other candidates exist.
\<close>

theorem find_downloaded_file_priority:
  assumes "prepared \<noteq> []" and "\<not> path_exists os prepared"
    and "\<exists>ext \<in> set (media_extensions (py_lower mt)).
           path_exists os (fst (splitext os prepared) @ ext)"
  shows "(\<exists>i < length (media_extensions (py_lower mt)).
            find_downloaded_file os now prepared mt dir =
              Some (fst (splitext os prepared) @ media_extensions (py_lower mt) ! i) \<and>
            path_exists os (fst (splitext os prepared) @ media_extensions (py_lower mt) ! i) \<and>
            (\<forall>j < i. \<not> path_exists os
                        (fst (splitext os prepared) @ media_extensions (py_lower mt) ! j))) \<and>
         (py_lower mt \<in> set [''audio'', ''audio only'', ''audio-only''] \<longrightarrow>
            media_extensions (py_lower mt) =
              [''.mp3'', ''.m4a'', ''.opus'', ''.ogg'', ''.wav'', ''.aac''] \<and>
            (path_exists os (fst (splitext os prepared) @ ''.mp3'') \<longrightarrow>
               find_downloaded_file os now prepared mt dir =
                 Some (fst (splitext os prepared) @ ''.mp3'')))"
proof -
  let ?base = "fst (splitext os prepared)"
  let ?exts = "media_extensions (py_lower mt)"
  let ?P = "\<lambda>ext. path_exists os (?base @ ext)"
  have base: "?base \<noteq> []" using assms(1) by (rule splitext_base_nonempty)
  from assms(3) obtain ext where ext: "List.find ?P ?exts = Some ext"
    by (cases "List.find ?P ?exts") (auto simp: find_None_iff)
  have res: "find_downloaded_file os now prepared mt dir = Some (?base @ ext)"
    using assms(1,2) base ext by (simp add: find_downloaded_file_def Let_def)
  from ext obtain i where i: "i < length ?exts" "?P (?exts ! i)" "ext = ?exts ! i"
    "\<forall>j<i. \<not> ?P (?exts ! j)"
    by (auto simp: find_Some_iff)
  have first: "\<exists>i < length ?exts.
            find_downloaded_file os now prepared mt dir = Some (?base @ ?exts ! i) \<and>
            ?P (?exts ! i) \<and> (\<forall>j < i. \<not> ?P (?exts ! j))"
    using i res by blast
  have audio: "?exts = [''.mp3'', ''.m4a'', ''.opus'', ''.ogg'', ''.wav'', ''.aac'']"
    if "py_lower mt \<in> set [''audio'', ''audio only'', ''audio-only'']"
    using that by (simp add: media_extensions_def)
  have mp3: "find_downloaded_file os now prepared mt dir = Some (?base @ ''.mp3'')"
    if "py_lower mt \<in> set [''audio'', ''audio only'', ''audio-only'']" "?P ''.mp3''"
  proof -
    have "List.find ?P ?exts = Some ''.mp3''"
      using that(2) by (simp add: audio [OF that(1)])
    with ext res show ?thesis by simp
  qed
  show ?thesis using first audio mp3 by blast
qed

theorem find_downloaded_file_priority_witness:
  "find_downloaded_file (demo_os [''/srv/downloads/a.m4a'', ''/srv/downloads/a.mp3'']) 0
     ''/srv/downloads/a.webm'' ''Audio'' ''/srv/downloads'' = Some ''/srv/downloads/a.mp3''"
proof -
  let ?os = "demo_os [''/srv/downloads/a.m4a'', ''/srv/downloads/a.mp3'']"
  have base: "fst (splitext ?os ''/srv/downloads/a.webm'') = ''/srv/downloads/a''"
    by code_simp
  have kind: "py_lower ''Audio'' \<in> set [''audio'', ''audio only'', ''audio-only'']"
    by code_simp
  have h1: "''/srv/downloads/a.webm'' \<noteq> []" by simp
  have h2: "\<not> path_exists ?os ''/srv/downloads/a.webm''" by code_simp
  have mp3: "path_exists ?os (fst (splitext ?os ''/srv/downloads/a.webm'') @ ''.mp3'')"
    by code_simp
  have h3: "\<exists>ext \<in> set (media_extensions (py_lower ''Audio'')).
           path_exists ?os (fst (splitext ?os ''/srv/downloads/a.webm'') @ ext)"
    by code_simp
  from find_downloaded_file_priority [OF h1 h2 h3, of 0 "''/srv/downloads''"] kind mp3
  have "find_downloaded_file ?os 0 ''/srv/downloads/a.webm'' ''Audio'' ''/srv/downloads'' =
          Some (fst (splitext ?os ''/srv/downloads/a.webm'') @ ''.mp3'')"
    by blast
  then show ?thesis by (simp add: base)
qed

section \<open>Range of the percent\<close>

lemma update_job_progress_fields:
  assumes "map_of J job_id = Some j"
  shows "\<exists>j'. map_of (update_job_progress rd J job_id st pc dl tot sp fn er) job_id = Some j' \<and>
         status j' = (if st = [] then status j else st) \<and>
         percent j' = (case pc of None \<Rightarrow> percent j | Some p \<Rightarrow> p) \<and>
         filename j' = (case fn of None \<Rightarrow> filename j | Some f \<Rightarrow> Some f) \<and>
         error j' = (case er of None \<Rightarrow> error j | Some e \<Rightarrow> Some e) \<and>
         platform j' = platform j \<and> media_type j' = media_type j \<and>
         start_time j' = start_time j"
  using assms
  by (simp add: update_job_progress_def Let_def update_conv' split: option.splits)

lemma hook_percent_step:
  assumes "map_of J job_id = Some j" and "0 \<le> percent j" and "percent j \<le> 100"
  shows "\<exists>j'. map_of (create_ydl_progress_hook job_id rd J d) job_id = Some j' \<and>
           0 \<le> percent j' \<and> percent j' \<le> 100"
proof -
  have upd: "\<exists>j'. map_of (update_job_progress rd J job_id st pc dl tot sp fn er) job_id = Some j' \<and>
           0 \<le> percent j' \<and> percent j' \<le> 100"
    if "case pc of None \<Rightarrow> True | Some p \<Rightarrow> 0 \<le> p \<and> p \<le> 100" for st pc dl tot sp fn er
    using update_job_progress_fields [OF assms(1), of rd st pc dl tot sp fn er] that assms(2,3)
    by (auto split: option.splits)
  show ?thesis
    unfolding create_ydl_progress_hook_def Let_def
    using assms by (auto intro!: upd)
qed

lemma run_hook_percent:
  assumes "map_of J job_id = Some j" and "0 \<le> percent j" and "percent j \<le> 100"
  shows "\<exists>j'. map_of (run_hook job_id J events) job_id = Some j' \<and>
           0 \<le> percent j' \<and> percent j' \<le> 100"
  using assms
proof (induction events arbitrary: J j)
  case Nil
  then show ?case by simp
next
  case (Cons e events)
  obtain rd d where e: "e = (rd, d)" by (cases e)
  from hook_percent_step [OF Cons.prems, of rd d] obtain j1 where
    "map_of (create_ydl_progress_hook job_id rd J d) job_id = Some j1"
    "0 \<le> percent j1" "percent j1 \<le> 100" by blast
  from Cons.IH [OF this] show ?case by (simp add: e)
qed

text \<open>
  Claim C1, as amended. \<^verbatim>\<open>update_job_progress\<close> stores the percent it is given as it is: it
  neither clamps the value nor compares it with the stored one, so a later write may lower
  the percent. What holds is the range under the progress hook: after any sequence of hook
  calls on a record whose percent lies within 0 and 100 (it is 0 at creation), the percent
  lies within 0 and 100.
\<close>

theorem percent_written_as_given:
  assumes "map_of J job_id = Some j"
  shows "map_option percent
           (map_of (update_job_progress rd J job_id st (Some p) dl tot sp fn er) job_id) = Some p \<and>
         (0 \<le> percent j \<and> percent j \<le> 100 \<longrightarrow>
            (\<exists>j'. map_of (run_hook job_id J events) job_id = Some j' \<and>
                  0 \<le> percent j' \<and> percent j' \<le> 100))"
  using update_job_progress_fields [OF assms, of rd st "Some p" dl tot sp fn er]
    run_hook_percent [OF assms, of events]
  by auto

theorem percent_written_as_given_witness:
  "map_option percent
     (map_of (update_job_progress (demo_reading 1) [(''j1'', demo_job)] ''j1'' ''preparing''
        (Some 45) None None None None None) ''j1'') = Some 45 \<and>
   map_option percent
     (map_of (run_hook ''j1'' [(''j1'', demo_job)]
        [(demo_reading 2, demo_downloading 400000 1000000), (demo_reading 3, demo_finished)])
        ''j1'') = Some 92"
proof -
  have j: "map_of [(''j1'', demo_job)] ''j1'' = Some demo_job" by simp
  have r: "0 \<le> percent demo_job \<and> percent demo_job \<le> 100"
    by (simp add: demo_job_def new_job_def)
  have v: "map_option percent
     (map_of (run_hook ''j1'' [(''j1'', demo_job)]
        [(demo_reading 2, demo_downloading 400000 1000000), (demo_reading 3, demo_finished)])
        ''j1'') = Some 92"
    by code_simp
  show ?thesis
    using percent_written_as_given [OF j, of "demo_reading 1" "''preparing''" 45 None None None
        None None "[(demo_reading 2, demo_downloading 400000 1000000), (demo_reading 3, demo_finished)]"] r v
    by simp
qed

text \<open>
  Claim C1 as stated fails: the controller writes 45 at \<^verbatim>\<open>preparing\<close>, and the next hook call
  with 50000 of 1000000 bytes writes 20; a write of 150 is stored as 150.
\<close>

theorem percent_monotone_counterexample:
  "map_option percent
     (map_of (update_job_progress (demo_reading 1) [(''j1'', demo_job)] ''j1'' ''preparing''
        (Some 45) None None None None None) ''j1'') = Some 45 \<and>
   map_option percent
     (map_of (create_ydl_progress_hook ''j1'' (demo_reading 2)
        (update_job_progress (demo_reading 1) [(''j1'', demo_job)] ''j1'' ''preparing''
           (Some 45) None None None None None)
        (demo_downloading 50000 1000000)) ''j1'') = Some 20 \<and>
   map_option percent
     (map_of (update_job_progress (demo_reading 1) [(''j1'', demo_job)] ''j1'' ''downloading''
        (Some 150) None None None None None) ''j1'') = Some 150"
  by code_simp

section \<open>What the controller leaves in the store\<close>

























section \<open>Properties of the endpoint \<^verbatim>\<open>POST /download\<close>\<close>

text \<open>
  Claim C3 does not hold of the code. Whenever the metadata probe of an accepted request
  raises, whatever the class and the text of the exception, the inner handler raises a
  plain \<^verbatim>\<open>Exception\<close> with the classified message, the handler
  \<^verbatim>\<open>except yt_dlp.utils.DownloadError\<close> and its status 400 are passed over, and the response
  is the classified message with the status 500.
\<close>

theorem probe_failure_answers_500:
  assumes "u = sanitize_url (r_url data)"
    and "mt = (case r_mediaType data of None \<Rightarrow> ''Video'' | Some m \<Rightarrow> m)"
    and "u \<noteq> []" and "prefix ''http://'' u \<or> prefix ''https://'' u"
    and "detect_platform u \<noteq> ''unknown''"
    and "ydl_open (e_engine env)
           (make_ydl_opts (e_os env) (e_uuid4 env) mt (detect_platform u)) = None"
    and "extract_info (e_engine env)
           (make_ydl_opts (e_os env) (e_uuid4 env) mt (detect_platform u)) u = Inl e"
  shows "fst (download env J data) =
           \<lparr>resp_body = ErrorBody (probe_error_message (exn_message e) (detect_platform u)),
            resp_code = 500\<rparr>"
  using assms(3-7)
  by (simp add: download_def download_job_def Let_def assms(1) [symmetric] assms(2) [symmetric])

theorem probe_failure_answers_500_witness:
  "fst (download
         (demo_env [] (demo_engine (Inl (DownloadError ''ERROR: [youtube] abc: Private video''))
                         ([], Inl (Exception []))))
         [] (demo_request ''https://www.youtube.com/watch?v=abc'')) =
     \<lparr>resp_body = ErrorBody ''This content is private and cannot be downloaded'',
      resp_code = 500\<rparr>"
proof -
  let ?env = "demo_env [] (demo_engine
                (Inl (DownloadError ''ERROR: [youtube] abc: Private video''))
                ([], Inl (Exception [])))"
  let ?data = "demo_request ''https://www.youtube.com/watch?v=abc''"
  have u: "''https://www.youtube.com/watch?v=abc'' = sanitize_url (r_url ?data)"
    by code_simp
  have mt: "''Video'' = (case r_mediaType ?data of None \<Rightarrow> ''Video'' | Some m \<Rightarrow> m)"
    by (simp add: demo_request_def)
  have p: "detect_platform ''https://www.youtube.com/watch?v=abc'' = ''youtube''"
    by code_simp
  have m: "probe_error_message
             (exn_message (DownloadError ''ERROR: [youtube] abc: Private video'')) ''youtube'' =
           ''This content is private and cannot be downloaded''"
    by code_simp
  show ?thesis
    using probe_failure_answers_500 [OF u mt, of ?env
        "DownloadError ''ERROR: [youtube] abc: Private video''" "[]"]
    by (simp add: p m demo_env_def demo_engine_def)
qed

















end
